theory Spec2Isabelle
  imports Complex_Main
begin

section \<open>The solar installation cost simulator (calc.py)\<close>

text \<open>
  The simulator computes with Python floats. They are idealised here as the real numbers:
  every arithmetic operation is exact, every value is finite, and the only non-number that
  the code can produce, the NaN that \<^verbatim>\<open>numpy.mean\<close> returns for an empty list, is
  modelled explicitly as \<open>None\<close>. Mutation of an object is explicit state passing: a
  function that updates its argument returns the updated object next to its result.
\<close>

subsection \<open>Data\<close>

text \<open>The module-level constant \<^verbatim>\<open>time_step = 1\<close> (hours).\<close>

definition time_step :: real where
  "time_step = 1"

text \<open>
  The classes. Field names carry a prefix where two classes share a name
  (\<^verbatim>\<open>name\<close>, \<^verbatim>\<open>efficiency\<close>) or where the name is a constant of HOL (\<^verbatim>\<open>power\<close>).
\<close>

record SolarPanel =
  panel_name :: string
  panel_power :: real
  tcp :: real
  degradation :: real
  nmot :: real
  panel_efficiency :: real

record Battery =
  battery_name :: string
  capacity :: real
  max_power :: real
  battery_efficiency :: real
  soc :: real

text \<open>\<^verbatim>\<open>Battery.__init__\<close>: the state of charge starts at 0.\<close>

definition Battery_init :: "string \<Rightarrow> real \<Rightarrow> real \<Rightarrow> real \<Rightarrow> Battery" where
  "Battery_init n c mp e =
     \<lparr>battery_name = n, capacity = c, max_power = mp, battery_efficiency = e, soc = 0\<rparr>"

record EnergyPlan =
  plan_name :: string
  peak :: real
  daily_peaks :: "real list"
  usage_cost :: real

text \<open>\<^verbatim>\<open>EnergyPlan.reset\<close>.\<close>

definition reset :: "EnergyPlan \<Rightarrow> EnergyPlan" where
  "reset self = self\<lparr>peak := 0, daily_peaks := [], usage_cost := 0\<rparr>"

text \<open>
  \<^verbatim>\<open>EnergyPlan.__init__\<close>: stores the name and calls \<^verbatim>\<open>reset\<close>. The usage and
  total functions it attaches to the instance (\<open>e13_total\<close>, \<open>e15_usage\<close> and
  \<open>e15_total\<close> are modelled below) take the plan as their first argument.
\<close>

definition EnergyPlan_init :: "string \<Rightarrow> EnergyPlan" where
  "EnergyPlan_init n = reset \<lparr>plan_name = n, peak = 0, daily_peaks = [], usage_cost = 0\<rparr>"

text \<open>
  What the tariff functions read of the \<^verbatim>\<open>datetime\<close> they are given: the fields
  \<^verbatim>\<open>month\<close> (1 to 12) and \<^verbatim>\<open>hour\<close> (0 to 23) and the value of the library method
  \<^verbatim>\<open>weekday()\<close> (0 for Monday to 6 for Sunday).
\<close>

record datetime =
  month :: int
  hour :: int
  weekday :: int

text \<open>
  The exceptions of the modelled code: \<^verbatim>\<open>IndexError\<close> of a list read out of range,
  \<^verbatim>\<open>AttributeError\<close> of a missing attribute, and the \<^verbatim>\<open>ValueError\<close> that the
  simulation loop raises by name.
\<close>

datatype error = IndexError | AttributeError | ValueError

subsection \<open>The panel\<close>

text \<open>
  \<^verbatim>\<open>solar_sim(panel, irr, temp_a)\<close>: the panel temperature is the constant 40 (the
  thermal formula is commented out in the source), the output is computed from the rated
  power before the update, then the rated power is degraded.
\<close>

definition solar_sim :: "SolarPanel \<Rightarrow> real \<Rightarrow> real \<Rightarrow> SolarPanel \<times> real" where
  "solar_sim panel irr temp_a =
     (let irr_stc = (1::real);
          temp_stc = (25::real);
          temp_p = (40::real);
          pout = panel_power panel * panel_efficiency panel * irr / irr_stc
                   * (1 + tcp panel * (temp_p - temp_stc));
          panel' = panel\<lparr>panel_power := panel_power panel * (1 - degradation panel / (24 * 365))\<rparr>
      in (panel', pout * time_step))"

subsection \<open>The battery\<close>

text \<open>
  \<^verbatim>\<open>battery_sim(battery, e_sys)\<close>: the inverter limit first, then the greedy update of
  the state of charge. Both limiting branches of the source compute
  \<^verbatim>\<open>e_resid = e_sys - battery_emax\<close>.
\<close>

definition battery_sim :: "Battery \<Rightarrow> real \<Rightarrow> Battery \<times> real" where
  "battery_sim battery e_sys0 =
     (let battery_emax = max_power battery * time_step;
          (e_resid, e_sys) =
             (if e_sys0 > battery_emax then (e_sys0 - battery_emax, battery_emax)
              else if e_sys0 < - battery_emax then (e_sys0 - battery_emax, - battery_emax)
              else (0, e_sys0));
          e_tot = soc battery * capacity battery + e_sys
      in if e_tot > capacity battery then
           (battery\<lparr>soc := 1\<rparr>,
            e_resid + battery_efficiency battery * (e_tot - capacity battery))
         else if e_tot < 0 then
           (battery\<lparr>soc := 0\<rparr>, e_resid + e_tot)
         else
           (if capacity battery \<noteq> 0 then battery\<lparr>soc := e_tot / capacity battery\<rparr>
            else battery,
            e_resid))"

text \<open>
  The simulation loop calls \<^verbatim>\<open>battery_sim\<close> once per step on the same battery object:
  \<open>dispatch_all\<close> threads the battery through a list of net energies and collects the
  residuals in order.
\<close>

fun dispatch_all :: "Battery \<Rightarrow> real list \<Rightarrow> Battery \<times> real list" where
  "dispatch_all battery [] = (battery, [])"
| "dispatch_all battery (e # es) =
     (let (battery', r) = battery_sim battery e;
          (battery'', rs) = dispatch_all battery' es
      in (battery'', r # rs))"

subsection \<open>The tariff plans\<close>

text \<open>
  \<^verbatim>\<open>numpy.mean\<close> of a list of floats: the sum divided by the length. For the empty
  list the library returns NaN (with a warning, no exception); NaN is \<open>None\<close> here.
  Arithmetic on NaN gives NaN and every comparison with NaN is false.
\<close>

definition np_mean :: "real list \<Rightarrow> real option" where
  "np_mean xs = (if xs = [] then None else Some (sum_list xs / real (length xs)))"

text \<open>
  The usage and total functions of a plan take the plan as \<^verbatim>\<open>self\<close> and return it
  updated; a raised exception is \<open>Inl\<close>.

  \<^verbatim>\<open>e13_total(self, time)\<close>.
\<close>

definition e13_total :: "EnergyPlan \<Rightarrow> datetime \<Rightarrow> error + (EnergyPlan \<times> real)" where
  "e13_total self time =
     (let service_charge = (32.44::real);
          total_cost = (if usage_cost self > 0 then service_charge + usage_cost self
                        else service_charge)
      in Inr (reset self, total_cost))"

text \<open>
  The two statements
  \<^verbatim>\<open>if energy > self.daily_peaks[-1]: self.daily_peaks[-1] = energy\<close>,
  which \<^verbatim>\<open>e15_usage\<close> repeats in each of its three on-peak branches. Reading the last
  element of an empty list raises \<^verbatim>\<open>IndexError\<close>.
\<close>

definition update_daily_peak :: "EnergyPlan \<Rightarrow> real \<Rightarrow> error + EnergyPlan" where
  "update_daily_peak self energy =
     (if daily_peaks self = [] then Inl IndexError
      else if energy > last (daily_peaks self) then
        Inr (self\<lparr>daily_peaks := (daily_peaks self)[length (daily_peaks self) - 1 := energy]\<rparr>)
      else Inr self)"

text \<open>
  \<^verbatim>\<open>e15_usage(self, time, energy)\<close>: at hour 0 a new slot 0.0 is appended first; the
  season is chosen by the month, in the order of the source; in an on-peak hour the usage
  cost is updated and then the last daily peak.
\<close>

definition e15_usage :: "EnergyPlan \<Rightarrow> datetime \<Rightarrow> real \<Rightarrow> error + EnergyPlan" where
  "e15_usage self0 time energy =
     (let self = (if hour time = 0 then self0\<lparr>daily_peaks := daily_peaks self0 @ [0]\<rparr>
                  else self0)
      in if month time = 7 \<or> month time = 8 then
           (if hour time \<ge> 14 \<and> hour time < 20 \<and> weekday time < 5 then
              update_daily_peak (self\<lparr>usage_cost := usage_cost self + energy * 0.0622\<rparr>) energy
            else Inr (self\<lparr>usage_cost := usage_cost self + energy * 0.0412\<rparr>))
         else if month time \<le> 4 \<or> month time \<ge> 11 then
           (if ((hour time \<ge> 5 \<and> hour time < 9) \<or> (hour time \<ge> 17 \<and> hour time < 21))
               \<and> weekday time < 5 then
              update_daily_peak (self\<lparr>usage_cost := usage_cost self + energy * 0.0410\<rparr>) energy
            else Inr (self\<lparr>usage_cost := usage_cost self + energy * 0.0370\<rparr>))
         else
           (if hour time \<ge> 14 \<and> hour time < 20 \<and> weekday time < 5 then
              update_daily_peak (self\<lparr>usage_cost := usage_cost self + energy * 0.0462\<rparr>) energy
            else Inr (self\<lparr>usage_cost := usage_cost self + energy * 0.0360\<rparr>)))"

text \<open>
  \<^verbatim>\<open>e15_total(self, time)\<close>: when the mean is NaN, so are the peak charge and the sum
  \<^verbatim>\<open>self.usage_cost + average_peak_charge\<close>, the comparison with 0.0 is false and the
  \<^verbatim>\<open>else\<close> branch is taken.
\<close>

definition e15_total :: "EnergyPlan \<Rightarrow> datetime \<Rightarrow> error + (EnergyPlan \<times> real)" where
  "e15_total self time =
     (let service_charge = (32.44::real);
          average_peak_charge =
            (if month time = 7 \<or> month time = 8 then
               map_option (\<lambda>m. m * 21.94) (np_mean (daily_peaks self))
             else if month time \<le> 4 \<or> month time \<ge> 11 then
               map_option (\<lambda>m. m * 19.29) (np_mean (daily_peaks self))
             else
               map_option (\<lambda>m. m * 8.13) (np_mean (daily_peaks self)));
          total_cost =
            (case average_peak_charge of
               None \<Rightarrow> service_charge
             | Some a \<Rightarrow>
                 if usage_cost self + a > 0 then service_charge + usage_cost self + a
                 else service_charge)
      in Inr (reset self, total_cost))"

text \<open>
  The simulation loop calls the usage function of a plan once per step:
  \<open>e15_usage_all\<close> threads the plan through a list of (time, energy) pairs and stops at
  the first exception.
\<close>

fun e15_usage_all :: "EnergyPlan \<Rightarrow> (datetime \<times> real) list \<Rightarrow> error + EnergyPlan" where
  "e15_usage_all self [] = Inr self"
| "e15_usage_all self ((time, energy) # rest) =
     (case e15_usage self time energy of
        Inl err \<Rightarrow> Inl err
      | Inr self' \<Rightarrow> e15_usage_all self' rest)"

subsection \<open>The simulation loop\<close>

text \<open>
  The first iteration of the module-level \<^verbatim>\<open>while today < end_date\<close> loop, for the
  first equipment combination, up to its first exception. \<^verbatim>\<open>today\<close> is January 1st, so
  \<^verbatim>\<open>day_idx = today.timetuple().tm_yday\<close> is 1. \<^verbatim>\<open>load_data[day_idx]\<close> raises
  \<^verbatim>\<open>IndexError\<close> when the list has fewer than two rows. The next statement calls
  \<^verbatim>\<open>datetime.strptime\<close>, where \<^verbatim>\<open>datetime\<close> is the module bound by
  \<^verbatim>\<open>import datetime\<close>: the module has no attribute of that name, and the attribute is
  looked up before the argument (which reads the unbound name \<^verbatim>\<open>load_data_now\<close>) is
  evaluated, so the statement raises \<^verbatim>\<open>AttributeError\<close>. The comparison of line 301
  and the \<^verbatim>\<open>raise ValueError\<close> of line 305 are never reached, and no row of
  \<^verbatim>\<open>solar_data\<close> is read before the exception.
\<close>

definition first_iteration :: "string list list \<Rightarrow> string list list \<Rightarrow> error + unit" where
  "first_iteration solar_data load_data =
     (let day_idx = (1::nat)
      in if day_idx < length load_data then Inl AttributeError else Inl IndexError)"

subsection \<open>Vocabulary of the properties\<close>



text \<open>
  The on-peak hours of the E-15 plan as one predicate: a weekday, and the window of the
  season (5 to 9 and 17 to 21 in the winter months, 14 to 20 in all other months).
\<close>

definition on_peak :: "datetime \<Rightarrow> bool" where
  "on_peak t =
     (weekday t < 5 \<and>
      (if month t \<le> 4 \<or> month t \<ge> 11 then
         (5 \<le> hour t \<and> hour t < 9) \<or> (17 \<le> hour t \<and> hour t < 21)
       else 14 \<le> hour t \<and> hour t < 20))"

text \<open>
  The seasonal demand-charge rate of the E-15 plan.
\<close>

definition demand_rate :: "datetime \<Rightarrow> real" where
  "demand_rate t =
     (if month t = 7 \<or> month t = 8 then 21.94
      else if month t \<le> 4 \<or> month t \<ge> 11 then 19.29
      else 8.13)"

text \<open>
  One summer weekday (a Wednesday in July), hour by hour: 5 kWh are imported in hour 15 and
  nothing in any other hour.
\<close>

definition summer_weekday_hours :: "(datetime \<times> real) list" where
  "summer_weekday_hours =
     map (\<lambda>h. (\<lparr>month = 7, hour = h, weekday = 2\<rparr>, if h = 15 then 5 else 0))
       [0, 1, 2, 3, 4, 5, 6, 7, 8, 9, 10, 11, 12, 13, 14, 15, 16, 17, 18, 19, 20, 21, 22, 23]"

section \<open>Properties\<close>

subsection \<open>Battery dispatch\<close>

text \<open>
  C1. The inverter limit. The claim asks for the residual contribution
  \<open>netEnergy + max_power * time_step\<close> when the net energy is below the negative limit.
  The source computes \<open>e_sys - battery_emax\<close> in that branch as in the positive one: for
  a battery of capacity 100, inverter limit 2, efficiency 0.9 and state of charge 0.5, a
  deficit of 10 kWh returns the residual -12 while the stored energy falls by 2 kWh, where
  the claim gives -8.
\<close>

theorem negative_clamp_residual_at_failing_input:
  "battery_sim ((Battery_init ''B'' 100 2 0.9)\<lparr>soc := 0.5\<rparr>) (-10)
     = ((Battery_init ''B'' 100 2 0.9)\<lparr>soc := 0.48\<rparr>, -12)
   \<and> snd (battery_sim ((Battery_init ''B'' 100 2 0.9)\<lparr>soc := 0.5\<rparr>) (-10))
       \<noteq> -10 + max_power (Battery_init ''B'' 100 2 0.9) * time_step"
  by (simp add: Battery_init_def battery_sim_def time_step_def)











text \<open>
  C3 (amended). A battery of capacity 0 and inverter limit 0, the catalogue's entry for
  no battery, is a pure pass-through: for every input, every efficiency and every state of
  charge, dispatch returns exactly the input and leaves the battery unchanged.
\<close>

theorem zero_capacity_zero_power_pass_through:
  "capacity b = 0 \<Longrightarrow> max_power b = 0 \<Longrightarrow> battery_sim b x = (b, x)"
  by (simp add: battery_sim_def time_step_def Let_def)

theorem zero_capacity_zero_power_pass_through_witness:
  "battery_sim (Battery_init ''None'' 0 0 0) 7 = (Battery_init ''None'' 0 0 0, 7)
   \<and> battery_sim (Battery_init ''None'' 0 0 0) (-7) = (Battery_init ''None'' 0 0 0, -7)"
proof -
  let ?b = "Battery_init ''None'' 0 0 0"
  have c: "capacity ?b = 0" and m: "max_power ?b = 0" by (simp_all add: Battery_init_def)
  from zero_capacity_zero_power_pass_through [OF c m, of 7]
    zero_capacity_zero_power_pass_through [OF c m, of "-7"]
  show ?thesis by blast
qed

text \<open>
  With capacity 0 and a positive inverter limit, a surplus within the limit exceeds the
  capacity: the state of charge is set to 1 and the surplus is returned derated by the
  efficiency.
\<close>

theorem zero_capacity_pass_through_counterexample:
  "battery_sim (Battery_init ''B'' 0 5 0.9) 3 = ((Battery_init ''B'' 0 5 0.9)\<lparr>soc := 1\<rparr>, 2.7)
   \<and> snd (battery_sim (Battery_init ''B'' 0 5 0.9) 3) \<noteq> 3
   \<and> soc (fst (battery_sim (Battery_init ''B'' 0 5 0.9) 3)) \<noteq> soc (Battery_init ''B'' 0 5 0.9)"
  by (simp add: Battery_init_def battery_sim_def time_step_def)

lemma battery_sim_soc_bounds:
  assumes "0 \<le> soc b" and "soc b \<le> 1"
  shows "0 \<le> soc (fst (battery_sim b x)) \<and> soc (fst (battery_sim b x)) \<le> 1"
proof -
  let ?emax = "max_power b * time_step"
  let ?sys = "if x > ?emax then ?emax else if x < - ?emax then - ?emax else x"
  let ?tot = "soc b * capacity b + ?sys"
  have step: "fst (battery_sim b x) =
      (if ?tot > capacity b then b\<lparr>soc := 1\<rparr>
       else if ?tot < 0 then b\<lparr>soc := 0\<rparr>
       else if capacity b \<noteq> 0 then b\<lparr>soc := ?tot / capacity b\<rparr> else b)"
    by (simp add: battery_sim_def Let_def)
  show ?thesis
  proof (cases "?tot > capacity b \<or> ?tot < 0")
    case True
    then show ?thesis unfolding step by auto
  next
    case False
    then have lo: "0 \<le> ?tot" and hi: "?tot \<le> capacity b" by auto
    show ?thesis
    proof (cases "capacity b = 0")
      case True
      with lo hi assms show ?thesis unfolding step by simp
    next
      case False
      with lo hi have pos: "0 < capacity b" by linarith
      from lo pos have "0 \<le> ?tot / capacity b" by simp
      moreover from hi pos have "?tot / capacity b \<le> 1" by simp
      ultimately show ?thesis using lo hi False unfolding step by simp
    qed
  qed
qed

text \<open>
  C4. State-of-charge bounds: when the state of charge of a battery starts in [0, 1], it is
  in [0, 1] after every dispatch call of every finite sequence of calls, whatever the net
  energies, the capacity, the inverter limit and the efficiency are.
\<close>

theorem soc_bounds_invariant:
  "0 \<le> soc b \<Longrightarrow> soc b \<le> 1 \<Longrightarrow>
     0 \<le> soc (fst (dispatch_all b es)) \<and> soc (fst (dispatch_all b es)) \<le> 1"
proof (induction es arbitrary: b)
  case Nil
  then show ?case by simp
next
  case (Cons e es)
  have "0 \<le> soc (fst (battery_sim b e)) \<and> soc (fst (battery_sim b e)) \<le> 1"
    using Cons.prems by (rule battery_sim_soc_bounds)
  then have "0 \<le> soc (fst (dispatch_all (fst (battery_sim b e)) es))
      \<and> soc (fst (dispatch_all (fst (battery_sim b e)) es)) \<le> 1"
    using Cons.IH by blast
  then show ?case by (simp add: split_beta)
qed

theorem soc_bounds_invariant_witness:
  "soc (fst (dispatch_all (Battery_init ''Tesla'' 13.5 5 0.9) [3, 20, -4, -30])) = 0
   \<and> 0 \<le> soc (fst (dispatch_all (Battery_init ''Tesla'' 13.5 5 0.9) [3, 20, -4, -30]))
   \<and> soc (fst (dispatch_all (Battery_init ''Tesla'' 13.5 5 0.9) [3, 20, -4, -30])) \<le> 1"
proof -
  have h0: "0 \<le> soc (Battery_init ''Tesla'' 13.5 5 0.9)"
    and h1: "soc (Battery_init ''Tesla'' 13.5 5 0.9) \<le> 1"
    by (simp_all add: Battery_init_def)
  have v: "soc (fst (dispatch_all (Battery_init ''Tesla'' 13.5 5 0.9) [3, 20, -4, -30])) = 0"
    by (simp add: Battery_init_def battery_sim_def time_step_def)
  show ?thesis
    using soc_bounds_invariant [OF h0 h1, of "[3, 20, -4, -30]"] v by simp
qed

subsection \<open>Settlement\<close>

lemma reset_fresh: "reset s = EnergyPlan_init (plan_name s)"
  by (simp add: reset_def EnergyPlan_init_def)

text \<open>
  C5. Settlement. The E-13 total is the service charge 32.44 plus the usage cost when the
  usage cost is positive, and exactly the service charge otherwise. The E-15 total, for a
  period with at least one daily peak, is the service charge plus the accumulated amount
  (usage cost plus mean daily peak times the seasonal demand rate) when that amount is
  positive, and exactly the service charge otherwise. Both leave the plan in the state of a
  freshly constructed plan of the same name.
\<close>

theorem settle_floor_and_reset:
  "e13_total s t =
     Inr (EnergyPlan_init (plan_name s),
          if usage_cost s > 0 then 32.44 + usage_cost s else 32.44)
   \<and> (daily_peaks s \<noteq> [] \<longrightarrow>
        e15_total s t =
          Inr (EnergyPlan_init (plan_name s),
               if usage_cost s
                    + sum_list (daily_peaks s) / real (length (daily_peaks s)) * demand_rate t > 0
               then 32.44 + (usage_cost s
                    + sum_list (daily_peaks s) / real (length (daily_peaks s)) * demand_rate t)
               else 32.44))"
  by (simp add: e13_total_def e15_total_def np_mean_def demand_rate_def reset_fresh Let_def)

theorem settle_floor_and_reset_witness:
  "e15_total ((EnergyPlan_init ''E15'')\<lparr>daily_peaks := [5, 3], usage_cost := 10\<rparr>)
      \<lparr>month = 7, hour = 23, weekday = 4\<rparr>
     = Inr (EnergyPlan_init ''E15'', 130.2)
   \<and> e15_total ((EnergyPlan_init ''E15'')\<lparr>daily_peaks := [0, 0], usage_cost := - 10\<rparr>)
      \<lparr>month = 7, hour = 23, weekday = 4\<rparr>
     = Inr (EnergyPlan_init ''E15'', 32.44)"
proof -
  let ?s = "(EnergyPlan_init ''E15'')\<lparr>daily_peaks := [5, 3], usage_cost := 10\<rparr>"
  let ?c = "(EnergyPlan_init ''E15'')\<lparr>daily_peaks := [0, 0], usage_cost := - 10\<rparr>"
  let ?t = "\<lparr>month = 7, hour = 23, weekday = 4\<rparr>"
  have hs: "daily_peaks ?s \<noteq> []" and hc: "daily_peaks ?c \<noteq> []" by simp_all
  have ns: "plan_name ?s = ''E15''" and nc: "plan_name ?c = ''E15''"
    by (simp_all add: EnergyPlan_init_def reset_def)
  have vs: "(if usage_cost ?s
                + sum_list (daily_peaks ?s) / real (length (daily_peaks ?s)) * demand_rate ?t > 0
             then 32.44 + (usage_cost ?s
                + sum_list (daily_peaks ?s) / real (length (daily_peaks ?s)) * demand_rate ?t)
             else 32.44) = (130.2::real)"
    by (simp add: demand_rate_def)
  have vc: "(if usage_cost ?c
                + sum_list (daily_peaks ?c) / real (length (daily_peaks ?c)) * demand_rate ?t > 0
             then 32.44 + (usage_cost ?c
                + sum_list (daily_peaks ?c) / real (length (daily_peaks ?c)) * demand_rate ?t)
             else 32.44) = (32.44::real)"
    by (simp add: demand_rate_def)
  from settle_floor_and_reset [of ?s ?t] hs have "e15_total ?s ?t = Inr (EnergyPlan_init ''E15'', 130.2)"
    unfolding ns vs by blast
  moreover from settle_floor_and_reset [of ?c ?t] hc
  have "e15_total ?c ?t = Inr (EnergyPlan_init ''E15'', 32.44)"
    unfolding nc vc by blast
  ultimately show ?thesis by blast
qed

subsection \<open>The panel\<close>

text \<open>
  C6. Degradation: every call of \<open>solar_sim\<close>, whatever the irradiance and the ambient
  temperature, multiplies the rated power by \<open>1 - degradation / (24 * 365)\<close>; for a
  degradation rate strictly between 0 and 1 and a non-negative rated power, the new rated
  power is non-negative and at most the old one.
\<close>

theorem degradation_every_step:
  "panel_power (fst (solar_sim p irr temp_a))
     = panel_power p * (1 - degradation p / (24 * 365))
   \<and> (0 < degradation p \<and> degradation p < 1 \<and> 0 \<le> panel_power p \<longrightarrow>
        0 \<le> panel_power (fst (solar_sim p irr temp_a))
        \<and> panel_power (fst (solar_sim p irr temp_a)) \<le> panel_power p)"
proof -
  have eq: "panel_power (fst (solar_sim p irr temp_a))
     = panel_power p * (1 - degradation p / (24 * 365))"
    by (simp add: solar_sim_def Let_def)
  have "0 \<le> panel_power p * (1 - degradation p / (24 * 365))
        \<and> panel_power p * (1 - degradation p / (24 * 365)) \<le> panel_power p"
    if d: "0 < degradation p" "degradation p < 1" and pw: "0 \<le> panel_power p"
  proof -
    have f0: "0 \<le> 1 - degradation p / (24 * 365)" using d by simp
    have f1: "1 - degradation p / (24 * 365) \<le> 1" using d by simp
    from pw f0 have "0 \<le> panel_power p * (1 - degradation p / (24 * 365))"
      by (rule mult_nonneg_nonneg)
    moreover from pw f1 have "panel_power p * (1 - degradation p / (24 * 365)) \<le> panel_power p * 1"
      by (intro mult_left_mono) simp_all
    ultimately show ?thesis by simp
  qed
  with eq show ?thesis by simp
qed

theorem degradation_every_step_witness:
  "panel_power (fst (solar_sim
       \<lparr>panel_name = ''LG'', panel_power = 0.335 * 0.98, tcp = -0.0036, degradation = 0.0033,
        nmot = 42, panel_efficiency = 0.95\<rparr> 0 20))
     \<le> 0.335 * 0.98
   \<and> 0 \<le> panel_power (fst (solar_sim
       \<lparr>panel_name = ''LG'', panel_power = 0.335 * 0.98, tcp = -0.0036, degradation = 0.0033,
        nmot = 42, panel_efficiency = 0.95\<rparr> 0 20))"
proof -
  let ?p = "\<lparr>panel_name = ''LG'', panel_power = 0.335 * 0.98, tcp = -0.0036,
             degradation = 0.0033, nmot = 42, panel_efficiency = 0.95\<rparr>"
  have h: "0 < degradation ?p \<and> degradation ?p < 1 \<and> 0 \<le> panel_power ?p" by simp
  have pw: "panel_power ?p = 0.335 * 0.98" by simp
  from degradation_every_step [of ?p 0 20] h
  have "0 \<le> panel_power (fst (solar_sim ?p 0 20))
        \<and> panel_power (fst (solar_sim ?p 0 20)) \<le> panel_power ?p"
    by blast
  then show ?thesis unfolding pw by blast
qed

subsection \<open>Daily peaks of the demand-charge plan\<close>

lemma update_daily_peak_peaks:
  "daily_peaks s \<noteq> [] \<Longrightarrow>
   map_sum id daily_peaks (update_daily_peak s e)
     = Inr (butlast (daily_peaks s) @ [max (last (daily_peaks s)) e])"
  by (cases "daily_peaks s" rule: rev_cases) (auto simp: update_daily_peak_def max_def)

lemma e15_usage_hour0:
  "hour t = 0 \<Longrightarrow> map_sum id daily_peaks (e15_usage s t e) = Inr (daily_peaks s @ [0])"
  by (simp add: e15_usage_def Let_def)

lemma e15_usage_off_peak:
  "hour t \<noteq> 0 \<Longrightarrow> \<not> on_peak t \<Longrightarrow>
   map_sum id daily_peaks (e15_usage s t e) = Inr (daily_peaks s)"
  by (auto simp: e15_usage_def on_peak_def Let_def)

lemma e15_usage_on_peak:
  assumes "hour t \<noteq> 0" and "on_peak t" and "daily_peaks s \<noteq> []"
  shows "map_sum id daily_peaks (e15_usage s t e)
           = Inr (butlast (daily_peaks s) @ [max (last (daily_peaks s)) e])"
  using assms
  by (auto simp: e15_usage_def on_peak_def Let_def update_daily_peak_peaks)

lemma e15_usage_export:
  assumes "hour t \<noteq> 0" and "daily_peaks s \<noteq> []" and "0 \<le> last (daily_peaks s)" and "e \<le> 0"
  shows "map_sum id daily_peaks (e15_usage s t e) = Inr (daily_peaks s)"
proof (cases "on_peak t")
  case True
  have "max (last (daily_peaks s)) e = last (daily_peaks s)"
    using assms(3,4) by simp
  with e15_usage_on_peak [OF assms(1) True assms(2), of e] assms(2) show ?thesis
    by simp
next
  case False
  with assms(1) show ?thesis by (rule e15_usage_off_peak)
qed

text \<open>
  C7. Daily peaks of the E-15 plan. A call at hour 0 appends a new slot 0 to the daily
  peaks. A call at another hour outside the on-peak hours leaves the daily peaks as they
  are. A call in an on-peak hour replaces the last daily peak by the maximum of it and the
  energy of the call; when the last daily peak is non-negative, as every slot that starts
  at 0 is, an export (an energy at most 0) leaves the daily peaks as they are. For the 24
  hours of a summer weekday with 5 kWh imported in hour 15 only, starting from a fresh
  plan, the recorded daily peaks are exactly [5].
\<close>

theorem e15_daily_peak_tracking:
  "(hour t = 0 \<longrightarrow>
      map_sum id daily_peaks (e15_usage s t e) = Inr (daily_peaks s @ [0]))
   \<and> (hour t \<noteq> 0 \<and> \<not> on_peak t \<longrightarrow>
      map_sum id daily_peaks (e15_usage s t e) = Inr (daily_peaks s))
   \<and> (hour t \<noteq> 0 \<and> on_peak t \<and> daily_peaks s \<noteq> [] \<longrightarrow>
      map_sum id daily_peaks (e15_usage s t e)
        = Inr (butlast (daily_peaks s) @ [max (last (daily_peaks s)) e]))
   \<and> (hour t \<noteq> 0 \<and> daily_peaks s \<noteq> [] \<and> 0 \<le> last (daily_peaks s) \<and> e \<le> 0 \<longrightarrow>
      map_sum id daily_peaks (e15_usage s t e) = Inr (daily_peaks s))
   \<and> map_sum id daily_peaks (e15_usage_all (EnergyPlan_init ''E15'') summer_weekday_hours)
       = Inr [5]"
proof (intro conjI impI)
  show "map_sum id daily_peaks (e15_usage_all (EnergyPlan_init ''E15'') summer_weekday_hours)
       = Inr [5]"
    by (simp add: summer_weekday_hours_def EnergyPlan_init_def reset_def
        e15_usage_def update_daily_peak_def)
qed (simp_all add: e15_usage_hour0 e15_usage_off_peak e15_usage_on_peak e15_usage_export)

theorem e15_daily_peak_tracking_witness:
  "map_sum id daily_peaks
     (e15_usage ((EnergyPlan_init ''E15'')\<lparr>daily_peaks := [2, 3]\<rparr>)
        \<lparr>month = 7, hour = 15, weekday = 2\<rparr> 5) = Inr [2, 5]
   \<and> map_sum id daily_peaks
     (e15_usage ((EnergyPlan_init ''E15'')\<lparr>daily_peaks := [2, 3]\<rparr>)
        \<lparr>month = 7, hour = 15, weekday = 2\<rparr> (-5)) = Inr [2, 3]
   \<and> map_sum id daily_peaks
     (e15_usage ((EnergyPlan_init ''E15'')\<lparr>daily_peaks := [2, 3]\<rparr>)
        \<lparr>month = 7, hour = 21, weekday = 2\<rparr> 5) = Inr [2, 3]
   \<and> map_sum id daily_peaks
     (e15_usage ((EnergyPlan_init ''E15'')\<lparr>daily_peaks := [2, 3]\<rparr>)
        \<lparr>month = 7, hour = 0, weekday = 2\<rparr> 5) = Inr [2, 3, 0]"
proof -
  let ?s = "(EnergyPlan_init ''E15'')\<lparr>daily_peaks := [2, 3]\<rparr>"
  let ?on = "\<lparr>month = 7, hour = 15, weekday = 2\<rparr>"
  let ?off = "\<lparr>month = 7, hour = 21, weekday = 2\<rparr>"
  let ?mid = "\<lparr>month = 7, hour = 0, weekday = 2\<rparr>"
  have on: "hour ?on \<noteq> 0 \<and> on_peak ?on \<and> daily_peaks ?s \<noteq> []"
    by (simp add: on_peak_def)
  have ex: "hour ?on \<noteq> 0 \<and> daily_peaks ?s \<noteq> [] \<and> 0 \<le> last (daily_peaks ?s)
              \<and> (-5::real) \<le> 0"
    by simp
  have off: "hour ?off \<noteq> 0 \<and> \<not> on_peak ?off"
    by (simp add: on_peak_def)
  have mid: "hour ?mid = 0" by simp
  have a: "map_sum id daily_peaks (e15_usage ?s ?on 5)
             = Inr (butlast (daily_peaks ?s) @ [max (last (daily_peaks ?s)) 5])"
    using e15_daily_peak_tracking [of ?on ?s 5] on by blast
  have b: "map_sum id daily_peaks (e15_usage ?s ?on (-5)) = Inr (daily_peaks ?s)"
    using e15_daily_peak_tracking [of ?on ?s "-5"] ex by blast
  have c: "map_sum id daily_peaks (e15_usage ?s ?off 5) = Inr (daily_peaks ?s)"
    using e15_daily_peak_tracking [of ?off ?s 5] off by blast
  have d: "map_sum id daily_peaks (e15_usage ?s ?mid 5) = Inr (daily_peaks ?s @ [0])"
    using e15_daily_peak_tracking [of ?mid ?s 5] mid by blast
  from a b c d show ?thesis by simp
qed

subsection \<open>Output of the panel\<close>

text \<open>
  C8. The energy that \<open>solar_sim\<close> returns is
  \<open>rated_power * efficiency * (irradiance / 1.0) * (1 + tcp * (40 - 25)) * time_step\<close>
  with the rated power before the degradation of this step; the cell temperature is the
  constant 40, so the ambient temperature has no influence; and the value is not clamped:
  a panel with temperature coefficient -0.1 returns -0.5.
\<close>

theorem generate_raw_output:
  "snd (solar_sim p irr temp_a)
     = panel_power p * panel_efficiency p * (irr / 1.0) * (1 + tcp p * (40 - 25)) * time_step
   \<and> snd (solar_sim p irr temp_a) = snd (solar_sim p irr temp_b)
   \<and> snd (solar_sim \<lparr>panel_name = ''P'', panel_power = 1, tcp = - (1 / 10), degradation = 0,
                      nmot = 42, panel_efficiency = 1\<rparr> 1 20) = - (1 / 2)"
  by (simp add: solar_sim_def Let_def time_step_def)

subsection \<open>Settlement with no daily peak\<close>

text \<open>
  C9 (amended). When the E-15 total is computed while the list of daily peaks is empty, no
  exception is raised: the mean is NaN, the bill is exactly the service charge 32.44,
  whatever the accumulated usage cost is, and the plan is reset.
\<close>

theorem e15_total_empty_peaks:
  "daily_peaks s = [] \<Longrightarrow> e15_total s t = Inr (EnergyPlan_init (plan_name s), 32.44)"
  by (simp add: e15_total_def np_mean_def reset_fresh Let_def)

theorem e15_total_empty_peaks_witness:
  "e15_total ((EnergyPlan_init ''E15'')\<lparr>usage_cost := 12\<rparr>) \<lparr>month = 1, hour = 23, weekday = 4\<rparr>
     = Inr (EnergyPlan_init ''E15'', 32.44)"
proof -
  let ?s = "(EnergyPlan_init ''E15'')\<lparr>usage_cost := 12\<rparr>"
  have h: "daily_peaks ?s = []" by (simp add: EnergyPlan_init_def reset_def)
  have n: "plan_name ?s = ''E15''" by (simp add: EnergyPlan_init_def reset_def)
  from e15_total_empty_peaks [OF h, of "\<lparr>month = 1, hour = 23, weekday = 4\<rparr>"]
  show ?thesis unfolding n .
qed

text \<open>
  The claim as stated, that this settlement raises an error, fails on a fresh plan.
\<close>

theorem e15_total_empty_peaks_counterexample:
  "\<not> isl (e15_total (EnergyPlan_init ''E15'') \<lparr>month = 1, hour = 23, weekday = 4\<rparr>)
   \<and> e15_total (EnergyPlan_init ''E15'') \<lparr>month = 1, hour = 23, weekday = 4\<rparr>
       = Inr (EnergyPlan_init ''E15'', 32.44)"
  by (simp add: e15_total_def np_mean_def EnergyPlan_init_def reset_def)

subsection \<open>Timestamps of the weather and load records\<close>

text \<open>
  C10. The claim asks for a data-integrity error exactly when the timestamps of the weather
  record and of the load record disagree. The loop of the source never compares them: its
  first iteration raises \<^verbatim>\<open>AttributeError\<close> before the check, here on records whose
  dates disagree (the load row read is January 2nd, the weather row January 1st).
\<close>

theorem first_iteration_raises_attribute_error:
  "first_iteration
     [[''1'', ''1'', ''0'', ''0'', ''0'', ''10'', ''0'', ''0'']]
     [[''1/1/2020'', ''12:0 am'', ''1.2''], [''1/2/2020'', ''1:0 am'', ''1.1'']]
     = Inl AttributeError"
  by (simp add: first_iteration_def)

end
